theory Spec2Isabelle
  imports Complex_Main "HOL-Library.Word" "HOL-Library.Sublist"
begin

section \<open>JavaScript strings, errors and numbers\<close>

subsection \<open>Strings and errors\<close>

text \<open>
  A JavaScript string is a sequence of UTF-16 code units and \<open>s.length\<close> counts code
  units, so a string is a list of 16-bit words and \<open>length\<close> is the list length.
  \<open>js\<close> embeds an ASCII literal of the source.
\<close>

type_synonym code_unit = "16 word"
type_synonym js_string = "code_unit list"

definition js :: "string \<Rightarrow> js_string" where
  "js s = map of_char s"

text \<open>
  The values that the modelled code throws or that reject one of its promises. The
  comment gives the source expression that creates each one.
\<close>

datatype js_error =
    TypeError  \<comment> \<open>a property read on \<open>null\<close> or \<open>undefined\<close>\<close>
  | AxiosError  \<comment> \<open>\<open>axios.post\<close> rejected (no connection, or a status outside 2xx)\<close>
  | StripeError  \<comment> \<open>\<open>stripe.checkout.sessions.create\<close> rejected\<close>
  | PostgrestError  \<comment> \<open>the \<open>error\<close> of a Supabase query, rethrown by \<open>fetchData\<close>\<close>
  | ConfigMissing  \<comment> \<open>\<open>new Error('WordPress configuration missing')\<close>\<close>
  | HttpError nat  \<comment> \<open>\<open>new Error(`HTTP ${response.status}: ${response.statusText}`)\<close>\<close>
  | InvalidResponseFormat  \<comment> \<open>\<open>new Error('Invalid response format')\<close>\<close>
  | RequestTimeout  \<comment> \<open>\<open>new Error('Request timeout')\<close>\<close>
  | AbortError  \<comment> \<open>the rejection of an aborted \<open>fetch\<close>, whose \<open>name\<close> is \<open>'AbortError'\<close>\<close>
  | FetchFailed  \<comment> \<open>any other rejection of \<open>fetch\<close> (a network failure)\<close>
  | JsonSyntaxError  \<comment> \<open>\<open>response.json()\<close> rejected\<close>

subsection \<open>Numbers\<close>

text \<open>
  A Number is an IEEE 754 double: \<open>NaN\<close>, an infinity, or a finite double, which is given
  here by its exact value, a rational. The two zeros are one value. The result of an
  arithmetic operation is the exact result rounded to the nearest double, ties to the
  even significand, and an infinity when the rounded magnitude reaches \<open>2\<^sup>1\<^sup>0\<^sup>2\<^sup>4\<close>.
\<close>

datatype js_number = NaN | PosInfinity | NegInfinity | Finite rat

text \<open>The nearest integer, ties to the even one.\<close>

definition round_half_even :: "rat \<Rightarrow> int" where
  "round_half_even x =
     (let f = \<lfloor>x\<rfloor>; d = x - of_int f
      in if d < 1 / 2 then f else if 1 / 2 < d then f + 1 else if even f then f else f + 1)"

text \<open>
  A positive \<open>x\<close> is written \<open>s * 2\<^sup>e\<close> with \<open>2\<^sup>5\<^sup>2 \<le> s < 2\<^sup>5\<^sup>3\<close>, or with \<open>e = -1074\<close> and
  \<open>s < 2\<^sup>5\<^sup>2\<close> in the subnormal range; the doubles around \<open>x\<close> are then the integer
  multiples of \<open>2\<^sup>e\<close>. \<open>scale_down\<close> halves while the significand is too large and
  \<open>scale_up\<close> doubles while it is too small and the exponent is above the least one.
\<close>

function scale_down :: "rat \<Rightarrow> int \<Rightarrow> rat \<times> int" where
  "scale_down x e = (if 2 ^ 53 \<le> x then scale_down (x / 2) (e + 1) else (x, e))"
  by pat_completeness auto
termination
proof (relation "measure (\<lambda>(x, e). nat \<lfloor>x\<rfloor>)")
  show "wf (measure (\<lambda>(x, e). nat \<lfloor>x\<rfloor>))" by simp
next
  fix x :: rat and e :: int
  assume big: "2 ^ 53 \<le> x"
  then have "x / 2 \<le> x - 1" by simp
  then have "\<lfloor>x / 2\<rfloor> \<le> \<lfloor>x - 1\<rfloor>" by (rule floor_mono)
  moreover have "0 < \<lfloor>x\<rfloor>" using big by simp
  ultimately show "((x / 2, e + 1), (x, e)) \<in> measure (\<lambda>(x, e). nat \<lfloor>x\<rfloor>)"
    by simp
qed

function scale_up :: "rat \<Rightarrow> int \<Rightarrow> rat \<times> int" where
  "scale_up x e = (if x < 2 ^ 52 \<and> - 1074 < e then scale_up (x * 2) (e - 1) else (x, e))"
  by pat_completeness auto
termination
  by (relation "measure (\<lambda>(x, e). nat (e + 1074))") auto

declare scale_down.simps [simp del]
declare scale_up.simps [simp del]

text \<open>\<open>2\<^sup>e\<close> for an integer \<open>e\<close>.\<close>

definition pow2 :: "int \<Rightarrow> rat" where
  "pow2 e = (if 0 \<le> e then 2 ^ nat e else 1 / 2 ^ nat (- e))"

text \<open>The double nearest to a positive rational.\<close>

definition round_positive :: "rat \<Rightarrow> js_number" where
  "round_positive x =
     (case scale_down x 0 of
        (y, e) \<Rightarrow>
          (case scale_up y e of
             (s, e') \<Rightarrow>
               (let r = of_int (round_half_even s) * pow2 e'
                in if 2 ^ 1024 \<le> r then PosInfinity else Finite r)))"

fun negate :: "js_number \<Rightarrow> js_number" where
  "negate NaN = NaN"
| "negate PosInfinity = NegInfinity"
| "negate NegInfinity = PosInfinity"
| "negate (Finite x) = Finite (- x)"

definition round_double :: "rat \<Rightarrow> js_number" where
  "round_double x =
     (if x = 0 then Finite 0
      else if 0 < x then round_positive x
      else negate (round_positive (- x)))"

text \<open>
  The operator \<open>*\<close> on Numbers: \<open>NaN\<close> when an operand is \<open>NaN\<close> or when an infinity meets
  zero, an infinity with the product of the signs when an infinity meets another value,
  and the rounded exact product of two finite doubles.
\<close>

fun number_times :: "js_number \<Rightarrow> js_number \<Rightarrow> js_number" where
  "number_times NaN b = NaN"
| "number_times a NaN = NaN"
| "number_times (Finite x) (Finite y) = round_double (x * y)"
| "number_times (Finite x) b =
     (if x = 0 then NaN else if (0 < x) = (b = PosInfinity) then PosInfinity else NegInfinity)"
| "number_times a (Finite y) =
     (if y = 0 then NaN else if (0 < y) = (a = PosInfinity) then PosInfinity else NegInfinity)"
| "number_times a b = (if a = b then PosInfinity else NegInfinity)"

section \<open>The AI router (\<open>ai-router.ts\<close>, \<open>qwen.ts\<close>, \<open>strategist.ts\<close>)\<close>

subsection \<open>The keyword pattern\<close>

text \<open>
  \<open>/strategy|plan|sequence|long-form|campaign/i\<close> is an alternation of five literal
  words, unanchored, with the \<open>i\<close> flag and without the \<open>u\<close> flag. Without \<open>u\<close>, two
  code units match when their canonical forms are equal, and the canonical form of a
  code unit is its upper-case form, except that a code unit of value 128 or more never
  takes a canonical form below 128. Every code unit of the pattern is ASCII, so only
  the ASCII part of the canonical form decides a comparison with it: \<open>a\<close>..\<open>z\<close> go to
  \<open>A\<close>..\<open>Z\<close> and no code unit outside ASCII is canonically equal to one of the pattern.
  \<open>canonicalize\<close> is that ASCII part.
\<close>

definition canonicalize :: "code_unit \<Rightarrow> code_unit" where
  "canonicalize c = (if 0x61 \<le> c \<and> c \<le> 0x7A then c - 0x20 else c)"

text \<open>\<open>match_here p s\<close>: the literal \<open>p\<close> matches at the start of \<open>s\<close>.\<close>

fun match_here :: "js_string \<Rightarrow> js_string \<Rightarrow> bool" where
  "match_here [] s = True"
| "match_here (p # ps) [] = False"
| "match_here (p # ps) (c # cs) = (canonicalize p = canonicalize c \<and> match_here ps cs)"

text \<open>\<open>search p s\<close>: the literal \<open>p\<close> matches at some position of \<open>s\<close>.\<close>

fun search :: "js_string \<Rightarrow> js_string \<Rightarrow> bool" where
  "search p [] = match_here p []"
| "search p (c # cs) = (match_here p (c # cs) \<or> search p cs)"

definition keyword_list :: "js_string list" where
  "keyword_list = map js [''strategy'', ''plan'', ''sequence'', ''long-form'', ''campaign'']"

text \<open>
  \<open>input.match(/.../i)\<close> is an array when the pattern matches somewhere and \<open>null\<close>
  otherwise; the router only uses its truth value.
\<close>

definition keyword_match :: "js_string \<Rightarrow> bool" where
  "keyword_match s = list_ex (\<lambda>p. search p s) keyword_list"

subsection \<open>The inference endpoint and the two backend helpers\<close>

record AIRequest =
  userId :: js_string
  input :: js_string
  language :: "js_string option"  \<comment> \<open>\<open>None\<close>: the optional field is absent\<close>

record generate_body =
  model :: js_string
  prompt :: js_string
  stream :: bool

text \<open>
  What \<open>await axios.post(url, body)\<close> can do. The promise rejects, or it resolves with
  a response whose \<open>data\<close> is the parsed body: \<open>NoData\<close> is a \<open>data\<close> of \<open>null\<close> or
  \<open>undefined\<close>, on which the property read \<open>response.data.response\<close> throws;
  \<open>Data r\<close> is any other \<open>data\<close>, with \<open>r\<close> its \<open>response\<close> property (\<open>None\<close> when it
  has none). The helpers are declared to return a string, so the property is a string
  when it is there.
\<close>

datatype axios_data = NoData | Data "js_string option"

datatype axios_outcome = Rejected | Resolved axios_data

type_synonym inference = "js_string \<Rightarrow> generate_body \<Rightarrow> axios_outcome"

text \<open>The observable steps of a run, in order.\<close>

datatype event =
    AskQwen AIRequest  \<comment> \<open>a call of \<open>askQwen\<close> with this argument object\<close>
  | AskStrategist AIRequest  \<comment> \<open>a call of \<open>askStrategist\<close>\<close>
  | AxiosPost js_string generate_body  \<comment> \<open>\<open>axios.post(url, body)\<close>\<close>

text \<open>
  An \<open>async\<close> function is modelled by the steps it takes and by how its promise
  settles: \<open>Inl\<close> a rejection, \<open>Inr\<close> the fulfilled value.
\<close>

type_synonym ('e, 'a) promise = "'e list \<times> (js_error + 'a)"

definition generate_url :: js_string where
  "generate_url = js ''http://localhost:11434/api/generate''"

text \<open>The default value \<open>language = 'en'\<close> of the destructured parameter.\<close>

definition language_or_default :: "js_string option \<Rightarrow> js_string" where
  "language_or_default l = (case l of None \<Rightarrow> js ''en'' | Some x \<Rightarrow> x)"

text \<open>The template literal \<open>`Respond in ${language}. ${input}`\<close>.\<close>

definition prompt_of :: "js_string \<Rightarrow> js_string \<Rightarrow> js_string" where
  "prompt_of lang inp = js ''Respond in '' @ lang @ js ''. '' @ inp"

text \<open>\<open>x || fallback\<close> on an optional string: \<open>undefined\<close> and \<open>''\<close> are falsy.\<close>

definition or_else :: "js_string option \<Rightarrow> js_string \<Rightarrow> js_string" where
  "or_else r fallback = (case r of None \<Rightarrow> fallback | Some s \<Rightarrow> if s = [] then fallback else s)"

text \<open>The body of the \<open>try\<close> block of \<open>askQwen\<close>.\<close>

definition askQwen_try :: "inference \<Rightarrow> AIRequest \<Rightarrow> (event, js_string) promise" where
  "askQwen_try http a =
     (let body = \<lparr>model = js ''qwen:0.5b'',
                  prompt = prompt_of (language_or_default (language a)) (input a),
                  stream = False\<rparr>
      in ([AxiosPost generate_url body],
          case http generate_url body of
            Rejected \<Rightarrow> Inl AxiosError
          | Resolved NoData \<Rightarrow> Inl TypeError
          | Resolved (Data r) \<Rightarrow> Inr (or_else r (js ''No response from Qwen.''))))"

text \<open>\<open>askQwen\<close>: the \<open>catch\<close> block logs and returns its fixed string.\<close>

definition askQwen :: "inference \<Rightarrow> AIRequest \<Rightarrow> (event, js_string) promise" where
  "askQwen http a =
     (case askQwen_try http a of
        (tr, Inr v) \<Rightarrow> (AskQwen a # tr, Inr v)
      | (tr, Inl err) \<Rightarrow> (AskQwen a # tr, Inr (js ''Qwen unavailable.'')))"

definition askStrategist_try :: "inference \<Rightarrow> AIRequest \<Rightarrow> (event, js_string) promise" where
  "askStrategist_try http a =
     (let body = \<lparr>model = js ''mixtral'',
                  prompt = prompt_of (language_or_default (language a)) (input a),
                  stream = False\<rparr>
      in ([AxiosPost generate_url body],
          case http generate_url body of
            Rejected \<Rightarrow> Inl AxiosError
          | Resolved NoData \<Rightarrow> Inl TypeError
          | Resolved (Data r) \<Rightarrow> Inr (or_else r (js ''No response from strategist.''))))"

definition askStrategist :: "inference \<Rightarrow> AIRequest \<Rightarrow> (event, js_string) promise" where
  "askStrategist http a =
     (case askStrategist_try http a of
        (tr, Inr v) \<Rightarrow> (AskStrategist a # tr, Inr v)
      | (tr, Inl err) \<Rightarrow> (AskStrategist a # tr, Inr (js ''Strategist unavailable.'')))"

subsection \<open>The router\<close>

text \<open>
  \<open>routeAIRequest\<close> destructures the request and passes a fresh object of the same three
  fields to the helper it chooses. A rejection of the awaited helper would reject the
  router's own promise.
\<close>

definition routeAIRequest :: "inference \<Rightarrow> AIRequest \<Rightarrow> (event, js_string) promise" where
  "routeAIRequest http req =
     (let a = \<lparr>userId = userId req, input = input req, language = language req\<rparr>
      in if length (input req) < 280 \<and> \<not> keyword_match (input req) then
           (case askQwen http a of
              (tr, Inl err) \<Rightarrow> (tr, Inl err)
            | (tr, Inr quickReply) \<Rightarrow> (tr, Inr (js ''[Qwen] '' @ quickReply)))
         else
           (case askStrategist http a of
              (tr, Inl err) \<Rightarrow> (tr, Inl err)
            | (tr, Inr strategicResponse) \<Rightarrow> (tr, Inr (js ''[Strategist] '' @ strategicResponse))))"

text \<open>How often a run called each helper.\<close>

fun is_AskQwen :: "event \<Rightarrow> bool" where
  "is_AskQwen (AskQwen a) = True"
| "is_AskQwen e = False"

fun is_AskStrategist :: "event \<Rightarrow> bool" where
  "is_AskStrategist (AskStrategist a) = True"
| "is_AskStrategist e = False"

definition qwen_calls :: "event list \<Rightarrow> nat" where
  "qwen_calls tr = length (filter is_AskQwen tr)"

definition strategist_calls :: "event list \<Rightarrow> nat" where
  "strategist_calls tr = length (filter is_AskStrategist tr)"

section \<open>The dashboard (\<open>production-crm-dashboard.tsx\<close>)\<close>

subsection \<open>Values and state\<close>

text \<open>
  The values that \<open>response.json()\<close> can produce, and \<open>undefined\<close>.
\<close>

datatype js_value =
    JUndefined
  | JNull
  | JBool bool
  | JNum js_number
  | JStr js_string
  | JArr "js_value list"
  | JObj "(js_string \<times> js_value) list"

text \<open>
  The truth value of a value in a condition: \<open>undefined\<close>, \<open>null\<close>, \<open>false\<close>, \<open>0\<close>, \<open>NaN\<close>
  and \<open>''\<close> are falsy, every other value is truthy.
\<close>

fun js_truthy :: "js_value \<Rightarrow> bool" where
  "js_truthy JUndefined = False"
| "js_truthy JNull = False"
| "js_truthy (JBool b) = b"
| "js_truthy (JNum x) = (x \<noteq> NaN \<and> x \<noteq> Finite 0)"
| "js_truthy (JStr s) = (s \<noteq> [])"
| "js_truthy (JArr vs) = True"
| "js_truthy (JObj kvs) = True"

text \<open>
  A row of the \<open>contacts\<close> table. \<open>ident\<close> is the row's \<open>id\<close> property, \<open>None\<close> when the
  object has none (then \<open>c.id\<close> is \<open>undefined\<close>); the type \<open>'i\<close> of identifiers is a type
  of primitive values, on which \<open>===\<close> is equality.
\<close>

record 'i contact =
  ident :: "'i option"
  email :: js_string
  first_name :: js_string
  last_name :: js_string

record 'i dashboard_state =
  contacts :: "'i contact list"
  campaigns :: "js_value"
  funnels :: "js_value"
  analytics :: "js_value"
  loading :: bool
  error :: "js_error option"  \<comment> \<open>\<open>null\<close>, or the message of this error\<close>
  retryCount :: nat

record ui_state =
  refreshing :: bool
  selectedTimeRange :: js_string

subsection \<open>The change-feed handler\<close>




subsection \<open>\<open>wpFetch\<close>\<close>

record wordpress_config =
  wp_url :: js_string  \<comment> \<open>\<open>config.wordpress.url\<close>, \<open>''\<close> when the variable is not set\<close>
  wp_apiKey :: js_string

text \<open>One call of \<open>fetch\<close>: the request and the delay of its abort timer.\<close>

record fetch_request =
  request_url :: js_string
  request_method :: js_string
  request_apiKey :: js_string  \<comment> \<open>the \<open>X-API-Key\<close> header\<close>
  request_body :: "js_value option"  \<comment> \<open>the value sent as JSON text; \<open>None\<close>: \<open>body\<close> is \<open>null\<close>\<close>
  abort_after_ms :: nat

text \<open>
  What one attempt meets: the timer aborts the pending \<open>fetch\<close>, the \<open>fetch\<close> rejects for
  another reason, or it resolves with a response, of which the code reads the status,
  whether the \<open>content-type\<close> header includes \<open>application/json\<close>, and the parsed body
  (\<open>None\<close> when \<open>response.json()\<close> rejects).
\<close>

datatype fetch_outcome =
    Aborted
  | NetworkFailure
  | Response nat bool "js_value option"

datatype wp_event =
    Fetch "fetch_request"  \<comment> \<open>\<open>fetch(url, {...options, signal})\<close>\<close>
  | Sleep nat  \<comment> \<open>\<open>await new Promise(resolve => setTimeout(resolve, ms))\<close>\<close>

text \<open>How the \<open>try\<close> block of one loop iteration ends.\<close>

datatype try_exit = Return "js_value" | Continue | Throw js_error

text \<open>\<open>response.ok\<close>\<close>

definition response_ok :: "nat \<Rightarrow> bool" where
  "response_ok status = (200 \<le> status \<and> status \<le> 299)"

text \<open>
  The \<open>try\<close> block of iteration \<open>i\<close>, against the outcome \<open>server i\<close> of the \<open>i\<close>-th
  attempt.
\<close>

definition try_block ::
  "(nat \<Rightarrow> fetch_outcome) \<Rightarrow> fetch_request \<Rightarrow> nat \<Rightarrow> nat \<Rightarrow> wp_event list \<times> try_exit" where
  "try_block server request retries i =
     (case server i of
        Aborted \<Rightarrow> ([Fetch request], Throw AbortError)
      | NetworkFailure \<Rightarrow> ([Fetch request], Throw FetchFailed)
      | Response status json_type body \<Rightarrow>
          if \<not> response_ok status then
            if status \<ge> 500 \<and> i < retries then ([Fetch request, Sleep (2 ^ i * 1000)], Continue)
            else ([Fetch request], Throw (HttpError status))
          else if \<not> json_type then ([Fetch request], Throw InvalidResponseFormat)
          else (case body of
                  None \<Rightarrow> ([Fetch request], Throw JsonSyntaxError)
                | Some v \<Rightarrow> ([Fetch request], Return v)))"

text \<open>
  The \<open>catch\<close> block of iteration \<open>i\<close>: \<open>Some e\<close> when it throws \<open>e\<close> out of the function,
  \<open>None\<close> when it ends normally and the loop goes on.
\<close>

definition catch_block :: "nat \<Rightarrow> nat \<Rightarrow> js_error \<Rightarrow> js_error option" where
  "catch_block retries i err =
     (if i = retries then Some err
      else if err = AbortError then Some RequestTimeout
      else None)"

text \<open>
  \<open>for (let i = 0; i <= retries; i++)\<close>, from iteration \<open>i\<close> on. After the loop the function
  returns \<open>undefined\<close>.
\<close>

function wpFetch_loop ::
  "(nat \<Rightarrow> fetch_outcome) \<Rightarrow> fetch_request \<Rightarrow> nat \<Rightarrow> nat \<Rightarrow> (wp_event, js_value) promise" where
  "wpFetch_loop server request retries i =
     (if i \<le> retries then
        (case try_block server request retries i of
           (evs, Return v) \<Rightarrow> (evs, Inr v)
         | (evs, Continue) \<Rightarrow>
             (case wpFetch_loop server request retries (Suc i) of (evs', r) \<Rightarrow> (evs @ evs', r))
         | (evs, Throw err) \<Rightarrow>
             (case catch_block retries i err of
                Some e \<Rightarrow> (evs, Inl e)
              | None \<Rightarrow>
                  (case wpFetch_loop server request retries (Suc i) of (evs', r) \<Rightarrow> (evs @ evs', r))))
      else ([], Inr JUndefined))"
  by pat_completeness auto
termination
  by (relation "measure (\<lambda>(server, request, retries, i). Suc retries - i)") auto

declare wpFetch_loop.simps [simp del]

text \<open>
  \<open>wpFetch(endpoint, method = 'GET', body = null, retries = 3)\<close>, with \<open>http_method\<close> for
  \<open>method\<close>. The request carries \<open>body ? JSON.stringify(body) : null\<close>: the body when it is
  truthy, and \<open>null\<close> otherwise.
\<close>

definition wpFetch ::
  "wordpress_config \<Rightarrow> (nat \<Rightarrow> fetch_outcome) \<Rightarrow> js_string \<Rightarrow> js_string \<Rightarrow> js_value \<Rightarrow> nat
     \<Rightarrow> (wp_event, js_value) promise" where
  "wpFetch config server endpoint http_method body retries =
     (if wp_url config = [] \<or> wp_apiKey config = [] then ([], Inl ConfigMissing)
      else wpFetch_loop server
             \<lparr>request_url = wp_url config @ js ''/wp-json/enterprise-crm/v1'' @ endpoint,
              request_method = http_method,
              request_apiKey = wp_apiKey config,
              request_body = (if js_truthy body then Some body else None),
              abort_after_ms = 10000\<rparr>
             retries 0)"

text \<open>The defaults of the parameters.\<close>

definition wpFetch_default ::
  "wordpress_config \<Rightarrow> (nat \<Rightarrow> fetch_outcome) \<Rightarrow> js_string \<Rightarrow> (wp_event, js_value) promise" where
  "wpFetch_default config server endpoint = wpFetch config server endpoint (js ''GET'') JNull 3"

fun is_Fetch :: "wp_event \<Rightarrow> bool" where
  "is_Fetch (Fetch r) = True"
| "is_Fetch (Sleep ms) = False"

definition attempts :: "wp_event list \<Rightarrow> nat" where
  "attempts evs = length (filter is_Fetch evs)"

subsection \<open>\<open>fetchData\<close>\<close>

text \<open>
  The reply of the Supabase query for the contacts: its \<open>data\<close> (\<open>None\<close>: \<open>null\<close>) and
  whether it carries an \<open>error\<close>. The \<open>then\<close> callback throws the error, else returns
  \<open>{ contacts: data || [] }\<close>. Without a client the contacts are \<open>[]\<close>.
\<close>

datatype 'i supabase_reply = QueryReply "'i contact list option" bool

definition supabase_part :: "'i supabase_reply option \<Rightarrow> js_error + 'i contact list" where
  "supabase_part supabase =
     (case supabase of
        None \<Rightarrow> Inr []
      | Some (QueryReply data err) \<Rightarrow>
          if err then Inl PostgrestError
          else Inr (case data of None \<Rightarrow> [] | Some rows \<Rightarrow> rows))"

text \<open>\<open>Promise.allSettled\<close> turns each promise into a record of how it settled.\<close>

datatype 'a settled = Fulfilled 'a | RejectedWith js_error

definition settle :: "js_error + 'a \<Rightarrow> 'a settled" where
  "settle r = (case r of Inl e \<Rightarrow> RejectedWith e | Inr v \<Rightarrow> Fulfilled v)"

record wp_data =
  data_campaigns :: "js_value"
  data_funnels :: "js_value"
  data_analytics :: "js_value"

text \<open>
  \<open>Promise.allSettled([...]).then(results => ({...}))\<close>: a promise that is fulfilled with
  the three values, each replaced by its default when its fetch was rejected.
\<close>

definition wp_part ::
  "js_error + js_value \<Rightarrow> js_error + js_value \<Rightarrow> js_error + js_value \<Rightarrow> js_error + wp_data" where
  "wp_part r0 r1 r2 =
     (let results = [settle r0, settle r1, settle r2]
      in Inr \<lparr>data_campaigns = (case results ! 0 of Fulfilled v \<Rightarrow> v | RejectedWith e \<Rightarrow> JArr []),
              data_funnels = (case results ! 1 of Fulfilled v \<Rightarrow> v | RejectedWith e \<Rightarrow> JArr []),
              data_analytics = (case results ! 2 of Fulfilled v \<Rightarrow> v | RejectedWith e \<Rightarrow> JObj [])\<rparr>)"

text \<open>\<open>Promise.all\<close> of two promises rejects as soon as one of them does.\<close>

definition promise_all2 :: "js_error + 'a \<Rightarrow> js_error + 'b \<Rightarrow> js_error + 'a \<times> 'b" where
  "promise_all2 p q =
     (case p of
        Inl e \<Rightarrow> Inl e
      | Inr x \<Rightarrow> (case q of Inl e \<Rightarrow> Inl e | Inr y \<Rightarrow> Inr (x, y)))"

text \<open>
  \<open>fetchData(isRefresh)\<close>, as the composition of its state updates. Each of the three
  WordPress requests runs against its own sequence of outcomes.
\<close>

definition fetchData ::
  "wordpress_config \<Rightarrow> (nat \<Rightarrow> fetch_outcome) \<Rightarrow> (nat \<Rightarrow> fetch_outcome) \<Rightarrow> (nat \<Rightarrow> fetch_outcome)
     \<Rightarrow> 'i supabase_reply option \<Rightarrow> 'i dashboard_state \<times> ui_state \<Rightarrow> bool
     \<Rightarrow> 'i dashboard_state \<times> ui_state" where
  "fetchData config server0 server1 server2 supabase s isRefresh =
     (let state1 = (fst s)\<lparr>loading := \<not> isRefresh, error := None\<rparr>;
          ui1 = (snd s)\<lparr>refreshing := isRefresh\<rparr>;
          wp = wp_part
                 (snd (wpFetch_default config server0 (js ''/campaigns'')))
                 (snd (wpFetch_default config server1 (js ''/funnels'')))
                 (snd (wpFetch_default config server2
                         (js ''/analytics?range='' @ selectedTimeRange (snd s))))
      in case promise_all2 (supabase_part supabase) wp of
           Inr (supabaseData, wpData) \<Rightarrow>
             (state1\<lparr>contacts := supabaseData,
                     campaigns := data_campaigns wpData,
                     funnels := data_funnels wpData,
                     analytics := data_analytics wpData,
                     loading := False,
                     retryCount := 0\<rparr>,
              ui1\<lparr>refreshing := False\<rparr>)
         | Inl err \<Rightarrow>
             (state1\<lparr>error := Some err, loading := False, retryCount := retryCount state1 + 1\<rparr>,
              ui1\<lparr>refreshing := False\<rparr>))"

section \<open>The checkout handler\<close>

text \<open>A row of the \<open>bots\<close> table. The price is a Number.\<close>

record 'b bot =
  bot_ident :: 'b
  title :: js_string
  description :: js_string
  price :: js_number

record ('b, 'u) checkout_body =
  bot_id :: 'b
  user_id :: 'u

record product_data =
  product_name :: js_string
  product_description :: js_string

record price_data =
  currency :: js_string
  product :: product_data
  unit_amount :: js_number

record line_item =
  item_price_data :: price_data
  quantity :: nat

record ('b, 'u) session_params =
  payment_method_types :: "js_string list"
  line_items :: "line_item list"
  mode :: js_string
  success_url :: js_string
  cancel_url :: js_string
  metadata :: "('b, 'u) checkout_body"

datatype ('b, 'u) checkout_event =
    SelectBot 'b  \<comment> \<open>the query on \<open>bots\<close>\<close>
  | CreateSession "('b, 'u) session_params"  \<comment> \<open>\<open>stripe.checkout.sessions.create(params)\<close>\<close>
  | ResJson js_string  \<comment> \<open>\<open>res.json({ id })\<close>\<close>

text \<open>\<open>.single()\<close> gives the row when the query has exactly one, and \<open>data: null\<close> otherwise.\<close>

definition single :: "'a list \<Rightarrow> 'a option" where
  "single rows = (case rows of [r] \<Rightarrow> Some r | _ \<Rightarrow> None)"

text \<open>\<open>supabase.from('bots').select('*').eq('id', bot_id).single()\<close>, its \<open>data\<close>.\<close>

definition select_bot :: "'b bot list \<Rightarrow> 'b \<Rightarrow> 'b bot option" where
  "select_bot bots b = single (filter (\<lambda>r. bot_ident r = b) bots)"

text \<open>
  The handler, against the table and against what Stripe answers to the creation of a
  session (a rejection, or the identifier of the session). Reading \<open>bot.title\<close> on a
  \<open>null\<close> bot throws while the argument of \<open>create\<close> is built, before any call.
\<close>

definition handler ::
  "(('b, 'u) session_params \<Rightarrow> js_error + js_string) \<Rightarrow> 'b bot list \<Rightarrow> ('b, 'u) checkout_body
     \<Rightarrow> (('b, 'u) checkout_event, unit) promise" where
  "handler stripe bots body =
     (case select_bot bots (bot_id body) of
        None \<Rightarrow> ([SelectBot (bot_id body)], Inl TypeError)
      | Some bot_row \<Rightarrow>
          (let params =
                 \<lparr>payment_method_types = [js ''card''],
                  line_items =
                    [\<lparr>item_price_data =
                        \<lparr>currency = js ''usd'',
                         product = \<lparr>product_name = title bot_row, product_description = description bot_row\<rparr>,
                         unit_amount = number_times (price bot_row) (Finite 100)\<rparr>,
                      quantity = 1\<rparr>],
                  mode = js ''payment'',
                  success_url = js ''https://zapscout.io/success?session_id={CHECKOUT_SESSION_ID}'',
                  cancel_url = js ''https://zapscout.io/cancel'',
                  metadata = \<lparr>bot_id = bot_id body, user_id = user_id body\<rparr>\<rparr>
           in case stripe params of
                Inl err \<Rightarrow> ([SelectBot (bot_id body), CreateSession params], Inl err)
              | Inr session_id \<Rightarrow>
                  ([SelectBot (bot_id body), CreateSession params, ResJson session_id], Inr ())))"

text \<open>The sessions a run asked Stripe to create, and the unit amounts of a session.\<close>

fun created_sessions :: "('b, 'u) checkout_event list \<Rightarrow> ('b, 'u) session_params list" where
  "created_sessions [] = []"
| "created_sessions (CreateSession p # evs) = p # created_sessions evs"
| "created_sessions (e # evs) = created_sessions evs"


fun is_ResJson :: "('b, 'u) checkout_event \<Rightarrow> bool" where
  "is_ResJson (ResJson session_id) = True"
| "is_ResJson e = False"

section \<open>The lead endpoint (\<open>EnterpriseCRMIntegration::create_contact\<close>)\<close>

subsection \<open>PHP values\<close>

text \<open>
  The values of a decoded JSON body: \<open>null\<close>, booleans, integers, floats, strings (byte
  strings, as \<open>string\<close> is) and arrays of key-value pairs. Of a float the code only asks
  whether it is zero, so floats are any type with a zero.
\<close>

datatype 'f php_value =
    PNull
  | PBool bool
  | PInt int
  | PFloat 'f
  | PString string
  | PArray "('f php_value \<times> 'f php_value) list"

text \<open>
  \<open>empty($v)\<close> for a value that is set: true on \<open>null\<close>, \<open>false\<close>, \<open>0\<close>, \<open>0.0\<close>, \<open>""\<close>, \<open>"0"\<close> and
  the array without elements.
\<close>

fun php_empty :: "'f::zero php_value \<Rightarrow> bool" where
  "php_empty PNull = True"
| "php_empty (PBool b) = (\<not> b)"
| "php_empty (PInt n) = (n = 0)"
| "php_empty (PFloat x) = (x = 0)"
| "php_empty (PString s) = (s = [] \<or> s = ''0'')"
| "php_empty (PArray kvs) = (kvs = [])"

text \<open>
  \<open>$request->get_json_params()\<close>: the decoded body as a map from keys to values, or
  \<open>null\<close> (\<open>None\<close>) when the request has no JSON body. \<open>param_at params k\<close> is the
  element \<open>$params[k]\<close> when it is there.
\<close>

type_synonym 'f json_params = "(string \<rightharpoonup> 'f php_value) option"

definition param_at :: "'f json_params \<Rightarrow> string \<Rightarrow> 'f php_value option" where
  "param_at params k = (case params of None \<Rightarrow> None | Some m \<Rightarrow> m k)"

text \<open>\<open>empty($params[k])\<close>: also true when the element is not there.\<close>

definition empty_at :: "'f::zero json_params \<Rightarrow> string \<Rightarrow> bool" where
  "empty_at params k = (case param_at params k of None \<Rightarrow> True | Some v \<Rightarrow> php_empty v)"

text \<open>\<open>$params[k]\<close> read as a value: \<open>null\<close> when the element is not there.\<close>

definition value_at :: "'f json_params \<Rightarrow> string \<Rightarrow> 'f php_value" where
  "value_at params k = (case param_at params k of None \<Rightarrow> PNull | Some v \<Rightarrow> v)"

text \<open>\<open>$params[k] ?? d\<close>: \<open>d\<close> when the element is not there or is \<open>null\<close>.\<close>

definition coalesce_at :: "'f json_params \<Rightarrow> string \<Rightarrow> 'f php_value \<Rightarrow> 'f php_value" where
  "coalesce_at params k d =
     (case param_at params k of None \<Rightarrow> d | Some PNull \<Rightarrow> d | Some v \<Rightarrow> v)"

subsection \<open>WordPress, as the callback sees it\<close>

record 'f meta_input =
  meta_email :: string
  meta_first_name :: string
  meta_last_name :: string
  meta_phone :: string
  meta_company :: string
  meta_source :: string
  meta_tags :: "'f php_value"
  meta_custom_fields :: "'f php_value"
  meta_created_at :: string
  meta_status :: string

record 'f postarr =
  post_type :: string
  post_title :: "'f php_value"
  post_status :: string
  post_meta :: "'f meta_input"

record 'f webhook_payload =
  hook_event :: string
  hook_contact_id :: nat
  hook_data :: "'f json_params"
  hook_timestamp :: string
  hook_site_url :: string

text \<open>What \<open>wp_insert_post\<close> returns: the identifier of the post, or a \<open>WP_Error\<close>.\<close>

datatype insert_result = PostID nat | InsertError string

text \<open>
  The functions and options of WordPress that the callback uses. \<open>get_posts v\<close> lists the
  identifiers of the \<open>crm_contacts\<close> posts whose \<open>email\<close> meta value equals \<open>v\<close>;
  \<open>wp_remote_post p\<close> is true when the call returns a \<open>WP_Error\<close>.
\<close>

record 'f wordpress =
  get_posts :: "'f php_value \<Rightarrow> nat list"
  wp_insert_post :: "'f postarr \<Rightarrow> insert_result"
  wp_remote_post :: "'f webhook_payload \<Rightarrow> bool"
  pipedream_webhook_url :: "'f php_value"
  sanitize_email :: "'f php_value \<Rightarrow> string"
  sanitize_text_field :: "'f php_value \<Rightarrow> string"
  current_time :: string
  home_url :: string

datatype 'f wp_effect =
    GetPosts "'f php_value"
  | WpUpdatePost nat string  \<comment> \<open>\<open>ID\<close> and \<open>post_modified\<close>\<close>
  | WpInsertPost "'f postarr"
  | WpRemotePost "'f webhook_payload"
  | WpScheduleSingleEvent "'f webhook_payload"
  | DoAction nat "'f json_params"
  | ErrorLog

datatype rest_result =
    WP_Error string string nat  \<comment> \<open>code, message, status\<close>
  | WP_REST_Response nat bool nat  \<comment> \<open>\<open>contact_id\<close>, \<open>webhook_triggered\<close>, status\<close>

text \<open>\<open>trigger_pipedream_webhook\<close>: its effects and whether it returns a \<open>WP_Error\<close>.\<close>

definition trigger_pipedream_webhook ::
  "'f::zero wordpress \<Rightarrow> string \<Rightarrow> nat \<Rightarrow> 'f json_params \<Rightarrow> 'f wp_effect list \<times> bool" where
  "trigger_pipedream_webhook wp event contact_id params =
     (if php_empty (pipedream_webhook_url wp) then ([ErrorLog], True)
      else
        (let payload = \<lparr>hook_event = event, hook_contact_id = contact_id, hook_data = params,
                        hook_timestamp = current_time wp, hook_site_url = home_url wp\<rparr>
         in if wp_remote_post wp payload
            then ([WpRemotePost payload, ErrorLog, WpScheduleSingleEvent payload], True)
            else ([WpRemotePost payload], False)))"

text \<open>
  The part of \<open>create_contact\<close> after the check of the required fields, up to the
  identifier of the contact: the search for a post with this email, then the update of the
  post found or the insertion of a new one.
\<close>

definition upsert_contact ::
  "'f::zero wordpress \<Rightarrow> 'f json_params \<Rightarrow> 'f wp_effect list \<times> insert_result" where
  "upsert_contact wp params =
     (case get_posts wp (value_at params ''email'') of
        existing # others \<Rightarrow>
          ([GetPosts (value_at params ''email''), WpUpdatePost existing (current_time wp)],
           PostID existing)
      | [] \<Rightarrow>
          (let arr =
                 \<lparr>post_type = ''crm_contacts'',
                  post_title = value_at params ''email'',
                  post_status = ''publish'',
                  post_meta =
                    \<lparr>meta_email = sanitize_email wp (value_at params ''email''),
                     meta_first_name = sanitize_text_field wp (value_at params ''first_name''),
                     meta_last_name =
                       sanitize_text_field wp (coalesce_at params ''last_name'' (PString [])),
                     meta_phone = sanitize_text_field wp (coalesce_at params ''phone'' (PString [])),
                     meta_company =
                       sanitize_text_field wp (coalesce_at params ''company'' (PString [])),
                     meta_source =
                       sanitize_text_field wp (coalesce_at params ''source'' (PString ''unknown'')),
                     meta_tags = coalesce_at params ''tags'' (PArray []),
                     meta_custom_fields = coalesce_at params ''custom_fields'' (PArray []),
                     meta_created_at = current_time wp,
                     meta_status = ''active''\<rparr>\<rparr>
           in ([GetPosts (value_at params ''email''), WpInsertPost arr], wp_insert_post wp arr)))"

text \<open>
  \<open>create_contact\<close>. The exception thrown on a \<open>WP_Error\<close> identifier is caught by the
  function's own \<open>catch\<close>, which logs twice and returns the error of status 500.
\<close>

definition create_contact ::
  "'f::zero wordpress \<Rightarrow> 'f json_params \<Rightarrow> 'f wp_effect list \<times> rest_result" where
  "create_contact wp params =
     (if empty_at params ''email'' \<or> empty_at params ''first_name'' then
        ([], WP_Error ''missing_required_fields'' ''Email and first_name are required'' 400)
      else
        (case upsert_contact wp params of
           (effects, InsertError msg) \<Rightarrow>
             (effects @ [ErrorLog, ErrorLog],
              WP_Error ''contact_creation_failed''
                (''Failed to process contact: '' @ ''Failed to create contact: '' @ msg) 500)
         | (effects, PostID contact_id) \<Rightarrow>
             (case trigger_pipedream_webhook wp ''lead_created'' contact_id params of
                (hook_effects, failed) \<Rightarrow>
                  (effects @ hook_effects @ [DoAction contact_id params],
                   WP_REST_Response contact_id (\<not> failed) 201))))"

text \<open>The effects that create or update a contact record.\<close>

fun writes_contact :: "'f wp_effect \<Rightarrow> bool" where
  "writes_contact (WpUpdatePost post_id modified) = True"
| "writes_contact (WpInsertPost arr) = True"
| "writes_contact e = False"

text \<open>
  A field that is missing or empty, in the words of the specification: the element is not
  there, or it is \<open>null\<close>, or it is the empty string.
\<close>

definition missing_or_empty :: "'f json_params \<Rightarrow> string \<Rightarrow> bool" where
  "missing_or_empty params k =
     (param_at params k = None \<or> param_at params k = Some PNull
      \<or> param_at params k = Some (PString []))"

section \<open>What the specification says of the backend helpers\<close>

text \<open>
  The body that a helper posts for the model \<open>m\<close>:
  \<open>{model, prompt: "Respond in {language}. {input}", stream: false}\<close>, with the language
  \<open>en\<close> when the request names none.
\<close>

definition expected_body :: "js_string \<Rightarrow> AIRequest \<Rightarrow> generate_body" where
  "expected_body m a =
     \<lparr>model = m,
      prompt = js ''Respond in '' @ (case language a of None \<Rightarrow> js ''en'' | Some l \<Rightarrow> l)
                 @ js ''. '' @ input a,
      stream = False\<rparr>"

text \<open>
  The string that a helper returns, from the outcome of its call: the \<open>response\<close> field of
  the reply when it is a non-empty string, the string \<open>no_response\<close> when the reply has no
  such field or an empty one, and the string \<open>unavailable\<close> when the call fails or the
  reply has no data.
\<close>

definition expected_reply :: "axios_outcome \<Rightarrow> js_string \<Rightarrow> js_string \<Rightarrow> js_string" where
  "expected_reply outcome no_response unavailable =
     (case outcome of
        Rejected \<Rightarrow> unavailable
      | Resolved NoData \<Rightarrow> unavailable
      | Resolved (Data None) \<Rightarrow> no_response
      | Resolved (Data (Some s)) \<Rightarrow> if s = [] then no_response else s)"

section \<open>Example inputs\<close>

text \<open>An endpoint that answers every request with \<open>{response: "hi"}\<close>.\<close>

definition http_ok :: inference where
  "http_ok = (\<lambda>url body. Resolved (Data (Some (js ''hi''))))"

text \<open>An endpoint that answers every request with \<open>{response: ""}\<close>.\<close>

definition http_empty :: inference where
  "http_empty = (\<lambda>url body. Resolved (Data (Some [])))"

definition short_request :: AIRequest where
  "short_request = \<lparr>userId = js ''u1'', input = js ''Hello there'', language = None\<rparr>"

definition keyword_request :: AIRequest where
  "keyword_request =
     \<lparr>userId = js ''u1'', input = js ''A Campaign'', language = Some (js ''fr'')\<rparr>"

text \<open>280 times the letter \<open>a\<close>.\<close>

definition long_request :: AIRequest where
  "long_request = \<lparr>userId = js ''u1'', input = replicate 280 0x61, language = None\<rparr>"

text \<open>A dashboard with two contacts, and one change notification of each kind.\<close>

definition alice :: "nat contact" where
  "alice = \<lparr>ident = Some 1, email = js ''alice@example.com'', first_name = js ''Alice'',
            last_name = js ''A''\<rparr>"

definition bob :: "nat contact" where
  "bob = \<lparr>ident = Some 2, email = js ''bob@example.com'', first_name = js ''Bob'',
          last_name = js ''B''\<rparr>"



definition dashboard0 :: "nat dashboard_state" where
  "dashboard0 =
     \<lparr>contacts = [alice, bob], campaigns = JArr [], funnels = JArr [], analytics = JObj [],
      loading = False, error = None, retryCount = 0\<rparr>"





text \<open>A WordPress configuration, the request it gives for \<open>/campaigns\<close>, and some servers.\<close>

definition config0 :: wordpress_config where
  "config0 = \<lparr>wp_url = js ''https://wp.example'', wp_apiKey = js ''key''\<rparr>"

definition campaigns_request :: "fetch_request" where
  "campaigns_request =
     \<lparr>request_url = js ''https://wp.example/wp-json/enterprise-crm/v1/campaigns'',
      request_method = js ''GET'', request_apiKey = js ''key'', request_body = None,
      abort_after_ms = 10000\<rparr>"

definition server_404_then_ok :: "nat \<Rightarrow> fetch_outcome" where
  "server_404_then_ok i =
     (if i = 0 then Response 404 True None else Response 200 True (Some (JArr [])))"

definition server_down_then_ok :: "nat \<Rightarrow> fetch_outcome" where
  "server_down_then_ok i =
     (if i = 0 then NetworkFailure else Response 200 True (Some (JArr [])))"

definition server_503_then_ok :: "nat \<Rightarrow> fetch_outcome" where
  "server_503_then_ok i =
     (if i < 2 then Response 503 False None else Response 200 True (Some (JArr [])))"

definition server_down :: "nat \<Rightarrow> fetch_outcome" where
  "server_down i = NetworkFailure"

definition server_slow :: "nat \<Rightarrow> fetch_outcome" where
  "server_slow i = Aborted"

definition server_500 :: "nat \<Rightarrow> fetch_outcome" where
  "server_500 i = Response 500 False None"

definition server_funnels :: "nat \<Rightarrow> fetch_outcome" where
  "server_funnels i = Response 200 True (Some (JArr [JStr (js ''welcome'')]))"

definition ui0 :: ui_state where
  "ui0 = \<lparr>refreshing = False, selectedTimeRange = js ''30d''\<rparr>"

text \<open>A table of two bots, and a Stripe that creates every session.\<close>

definition bots0 :: "nat bot list" where
  "bots0 = [\<lparr>bot_ident = 7, title = js ''Scout'', description = js ''A bot'', price = Finite 10\<rparr>,
            \<lparr>bot_ident = 8, title = js ''Zap'', description = js ''Another bot'', price = Finite 25\<rparr>]"

text \<open>
  A bot whose price is the double nearest to 19.99, that is
  \<open>5626684784446013 / 2\<^sup>4\<^sup>8\<close>, and a bot whose price is \<open>2\<^sup>5\<^sup>3 - 1\<close>.
\<close>

definition price_19_99 :: js_number where
  "price_19_99 = Finite (5626684784446013 / 281474976710656)"


definition stripe0 :: "(nat, nat) session_params \<Rightarrow> js_error + js_string" where
  "stripe0 = (\<lambda>params. Inr (js ''cs_test_1''))"

text \<open>A WordPress without contacts, and three bodies for the lead endpoint.\<close>

definition wordpress0 :: "int wordpress" where
  "wordpress0 =
     \<lparr>get_posts = (\<lambda>v. []),
      wp_insert_post = (\<lambda>arr. PostID 42),
      wp_remote_post = (\<lambda>payload. False),
      pipedream_webhook_url = PString ''https://hooks.example/lead'',
      sanitize_email = (\<lambda>v. case v of PString s \<Rightarrow> s | _ \<Rightarrow> []),
      sanitize_text_field = (\<lambda>v. case v of PString s \<Rightarrow> s | _ \<Rightarrow> []),
      current_time = ''2024-01-01 00:00:00'',
      home_url = ''https://site.example''\<rparr>"

definition params_no_email :: "int json_params" where
  "params_no_email = Some [''first_name'' \<mapsto> PString ''Ada'']"

definition params_empty_name :: "int json_params" where
  "params_empty_name =
     Some [''email'' \<mapsto> PString ''ada@example.com'', ''first_name'' \<mapsto> PString []]"

definition params_complete :: "int json_params" where
  "params_complete =
     Some [''email'' \<mapsto> PString ''ada@example.com'', ''first_name'' \<mapsto> PString ''Ada'']"

section \<open>Properties of the AI router\<close>

lemma askQwen_result:
  "askQwen http a =
     ([AskQwen a, AxiosPost generate_url (expected_body (js ''qwen:0.5b'') a)],
      Inr (expected_reply (http generate_url (expected_body (js ''qwen:0.5b'') a))
             (js ''No response from Qwen.'') (js ''Qwen unavailable.'')))"
  by (simp add: askQwen_def askQwen_try_def prompt_of_def language_or_default_def
      expected_body_def expected_reply_def or_else_def Let_def
      split: axios_outcome.split axios_data.split option.split)

lemma askStrategist_result:
  "askStrategist http a =
     ([AskStrategist a, AxiosPost generate_url (expected_body (js ''mixtral'') a)],
      Inr (expected_reply (http generate_url (expected_body (js ''mixtral'') a))
             (js ''No response from strategist.'') (js ''Strategist unavailable.'')))"
  by (simp add: askStrategist_def askStrategist_try_def prompt_of_def language_or_default_def
      expected_body_def expected_reply_def or_else_def Let_def
      split: axios_outcome.split axios_data.split option.split)

text \<open>
  C1. For a request whose input is shorter than 280 code units and does not match the
  keyword pattern, \<open>routeAIRequest\<close> calls \<open>askQwen\<close> exactly once, does not call
  \<open>askStrategist\<close>, and returns what \<open>askQwen\<close> returned with \<open>[Qwen] \<close> in front.
\<close>

theorem routeAIRequest_fast:
  assumes "length (input req) < 280" and "\<not> keyword_match (input req)"
  shows "\<exists>tr reply.
           askQwen http \<lparr>userId = userId req, input = input req, language = language req\<rparr>
             = (tr, Inr reply)
         \<and> routeAIRequest http req = (tr, Inr (js ''[Qwen] '' @ reply))
         \<and> qwen_calls tr = 1 \<and> strategist_calls tr = 0"
  using assms
  by (simp add: routeAIRequest_def Let_def askQwen_result qwen_calls_def strategist_calls_def)

theorem routeAIRequest_fast_witness:
  "length (input short_request) < 280 \<and> \<not> keyword_match (input short_request)
   \<and> routeAIRequest http_ok short_request =
       ([AskQwen short_request,
         AxiosPost generate_url
           \<lparr>model = js ''qwen:0.5b'', prompt = js ''Respond in en. Hello there'', stream = False\<rparr>],
        Inr (js ''[Qwen] hi''))"
  using routeAIRequest_fast [of short_request http_ok]
  by (simp add: short_request_def http_ok_def keyword_match_def keyword_list_def js_def
      canonicalize_def askQwen_result expected_body_def expected_reply_def)

text \<open>
  C2. For a request whose input has 280 code units or more, or matches the keyword
  pattern, \<open>routeAIRequest\<close> calls \<open>askStrategist\<close> (once), does not call \<open>askQwen\<close>, and
  returns what \<open>askStrategist\<close> returned with \<open>[Strategist] \<close> in front.
\<close>

theorem routeAIRequest_deep:
  assumes "280 \<le> length (input req) \<or> keyword_match (input req)"
  shows "\<exists>tr reply.
           askStrategist http \<lparr>userId = userId req, input = input req, language = language req\<rparr>
             = (tr, Inr reply)
         \<and> routeAIRequest http req = (tr, Inr (js ''[Strategist] '' @ reply))
         \<and> strategist_calls tr = 1 \<and> qwen_calls tr = 0"
  using assms
  by (auto simp add: routeAIRequest_def Let_def askStrategist_result qwen_calls_def
      strategist_calls_def)

theorem routeAIRequest_deep_witness:
  "keyword_match (input keyword_request) \<and> length (input keyword_request) < 280
   \<and> routeAIRequest http_ok keyword_request =
       ([AskStrategist keyword_request,
         AxiosPost generate_url
           \<lparr>model = js ''mixtral'', prompt = js ''Respond in fr. A Campaign'', stream = False\<rparr>],
        Inr (js ''[Strategist] hi''))
   \<and> 280 \<le> length (input long_request)
   \<and> routeAIRequest http_ok long_request =
       ([AskStrategist long_request,
         AxiosPost generate_url
           \<lparr>model = js ''mixtral'', prompt = js ''Respond in en. '' @ replicate 280 0x61,
            stream = False\<rparr>],
        Inr (js ''[Strategist] hi''))"
  using routeAIRequest_deep [of keyword_request http_ok]
    routeAIRequest_deep [of long_request http_ok]
  by (simp add: keyword_request_def long_request_def http_ok_def keyword_match_def
      keyword_list_def js_def canonicalize_def askStrategist_result expected_body_def
      expected_reply_def)

text \<open>
  C6, as amended. Each helper posts exactly the body
  \<open>{model, prompt: "Respond in {language}. {input}", stream: false}\<close> (language \<open>en\<close> by
  default) to the inference endpoint, once, and its promise is fulfilled: with the
  \<open>response\<close> field of the reply when that is a non-empty string, with the fixed string
  \<open>No response from ...\<close> when the reply has no \<open>response\<close> field or an empty one, and with
  the fixed string \<open>... unavailable.\<close> when the call fails.
\<close>

theorem helpers_payload_and_reply:
  "askQwen http a =
     ([AskQwen a, AxiosPost generate_url (expected_body (js ''qwen:0.5b'') a)],
      Inr (expected_reply (http generate_url (expected_body (js ''qwen:0.5b'') a))
             (js ''No response from Qwen.'') (js ''Qwen unavailable.'')))
   \<and> askStrategist http a =
     ([AskStrategist a, AxiosPost generate_url (expected_body (js ''mixtral'') a)],
      Inr (expected_reply (http generate_url (expected_body (js ''mixtral'') a))
             (js ''No response from strategist.'') (js ''Strategist unavailable.'')))"
  by (simp add: askQwen_result askStrategist_result)

theorem helpers_payload_and_reply_witness:
  "askQwen http_ok short_request =
     ([AskQwen short_request,
       AxiosPost generate_url
         \<lparr>model = js ''qwen:0.5b'', prompt = js ''Respond in en. Hello there'', stream = False\<rparr>],
      Inr (js ''hi''))
   \<and> askStrategist http_empty keyword_request =
     ([AskStrategist keyword_request,
       AxiosPost generate_url
         \<lparr>model = js ''mixtral'', prompt = js ''Respond in fr. A Campaign'', stream = False\<rparr>],
      Inr (js ''No response from strategist.''))"
  using helpers_payload_and_reply [of http_ok short_request]
    helpers_payload_and_reply [of http_empty keyword_request]
  by (simp add: short_request_def keyword_request_def http_ok_def http_empty_def js_def
      expected_body_def expected_reply_def)

text \<open>
  C6 as stated fails: the endpoint answers the call with the \<open>response\<close> field \<open>""\<close>, the
  call does not fail, and \<open>askQwen\<close> returns \<open>No response from Qwen.\<close>, which is not the
  \<open>response\<close> field of the reply.
\<close>

theorem askQwen_empty_response_counterexample:
  "http_empty generate_url (expected_body (js ''qwen:0.5b'') short_request)
     = Resolved (Data (Some []))
   \<and> snd (askQwen http_empty short_request) = Inr (js ''No response from Qwen.'')
   \<and> snd (askQwen http_empty short_request) \<noteq> Inr []"
  by (simp add: askQwen_result http_empty_def expected_reply_def js_def)

text \<open>
  C9. The promise of \<open>routeAIRequest\<close> is never rejected: for every endpoint and every
  request it is fulfilled with a string that starts with \<open>[Qwen] \<close>, after exactly one call
  of \<open>askQwen\<close> and none of \<open>askStrategist\<close>, or with a string that starts with
  \<open>[Strategist] \<close>, after exactly one call of \<open>askStrategist\<close> and none of \<open>askQwen\<close>.
  The promises of the two helpers are never rejected either.
\<close>

theorem routeAIRequest_never_rejects:
  "(\<exists>tr s. routeAIRequest http req = (tr, Inr s)
      \<and> ((prefix (js ''[Qwen] '') s \<and> qwen_calls tr = 1 \<and> strategist_calls tr = 0)
         \<or> (prefix (js ''[Strategist] '') s \<and> strategist_calls tr = 1 \<and> qwen_calls tr = 0)))
   \<and> (\<exists>s. snd (askQwen http a) = Inr s)
   \<and> (\<exists>s. snd (askStrategist http a) = Inr s)"
  by (simp add: routeAIRequest_def Let_def askQwen_result askStrategist_result qwen_calls_def
      strategist_calls_def)

section \<open>Properties of the dashboard\<close>

subsection \<open>The change-feed handler\<close>




subsection \<open>\<open>wpFetch\<close>\<close>

lemma try_block_attempts: "attempts (fst (try_block server request retries i)) = 1"
  by (simp add: try_block_def attempts_def split: fetch_outcome.split option.split)

lemma try_block_events:
  "set (fst (try_block server request retries i)) \<subseteq> insert (Fetch request) (range Sleep)"
  by (auto simp add: try_block_def split: fetch_outcome.split option.split if_splits)

lemma attempts_append: "attempts (xs @ ys) = attempts xs + attempts ys"
  by (simp add: attempts_def)

lemma wpFetch_loop_attempts:
  "attempts (fst (wpFetch_loop server request retries i)) \<le> Suc retries - i"
proof (induction server request retries i rule: wpFetch_loop.induct)
  case (1 server request retries i)
  show ?case
  proof (cases "i \<le> retries")
    case False
    then show ?thesis
      by (subst wpFetch_loop.simps) (simp add: attempts_def)
  next
    case True
    obtain evs ex where tb: "try_block server request retries i = (evs, ex)"
      by (cases "try_block server request retries i")
    have one: "attempts evs = 1"
      using try_block_attempts [of server request retries i] tb by simp
    obtain evs' r where next_loop: "wpFetch_loop server request retries (Suc i) = (evs', r)"
      by (cases "wpFetch_loop server request retries (Suc i)")
    show ?thesis
    proof (cases ex)
      case (Return v)
      with True tb one show ?thesis
        by (subst wpFetch_loop.simps) simp
    next
      case Continue
      with "1.IH"(1) [OF True tb [symmetric]] True tb next_loop
      have "attempts evs' \<le> Suc retries - Suc i" by simp
      with True tb one Continue next_loop show ?thesis
        by (subst wpFetch_loop.simps) (simp add: attempts_append)
    next
      case (Throw err)
      show ?thesis
      proof (cases "catch_block retries i err")
        case (Some e)
        with True tb one Throw show ?thesis
          by (subst wpFetch_loop.simps) simp
      next
        case None
        with "1.IH"(2) [OF True tb [symmetric]] True tb Throw next_loop
        have "attempts evs' \<le> Suc retries - Suc i" by simp
        with True tb one Throw None next_loop show ?thesis
          by (subst wpFetch_loop.simps) (simp add: attempts_append)
      qed
    qed
  qed
qed


lemma wpFetch_loop_events:
  "set (fst (wpFetch_loop server request retries i)) \<subseteq> insert (Fetch request) (range Sleep)"
proof (induction server request retries i rule: wpFetch_loop.induct)
  case (1 server request retries i)
  show ?case
  proof (cases "i \<le> retries")
    case False
    then show ?thesis
      by (subst wpFetch_loop.simps) simp
  next
    case True
    obtain evs ex where tb: "try_block server request retries i = (evs, ex)"
      by (cases "try_block server request retries i")
    have here: "set evs \<subseteq> insert (Fetch request) (range Sleep)"
      using try_block_events [of server request retries i] tb by simp
    obtain evs' r where next_loop: "wpFetch_loop server request retries (Suc i) = (evs', r)"
      by (cases "wpFetch_loop server request retries (Suc i)")
    show ?thesis
    proof (cases ex)
      case (Return v)
      with True tb here show ?thesis
        by (subst wpFetch_loop.simps) simp
    next
      case Continue
      with "1.IH"(1) [OF True tb [symmetric]] True tb next_loop
      have "set evs' \<subseteq> insert (Fetch request) (range Sleep)" by simp
      with True tb here Continue next_loop show ?thesis
        by (subst wpFetch_loop.simps) simp
    next
      case (Throw err)
      show ?thesis
      proof (cases "catch_block retries i err")
        case (Some e)
        with True tb here Throw show ?thesis
          by (subst wpFetch_loop.simps) simp
      next
        case None
        with "1.IH"(2) [OF True tb [symmetric]] True tb Throw next_loop
        have "set evs' \<subseteq> insert (Fetch request) (range Sleep)" by simp
        with True tb here Throw None next_loop show ?thesis
          by (subst wpFetch_loop.simps) simp
      qed
    qed
  qed
qed

lemma wpFetch_loop_starts_with_fetch:
  assumes "i \<le> retries"
  shows "\<exists>rest. fst (wpFetch_loop server request retries i) = Fetch request # rest"
  using assms
  by (subst wpFetch_loop.simps)
     (auto simp add: try_block_def catch_block_def
       split: fetch_outcome.split option.split prod.split)

lemma wpFetch_loop_5xx:
  assumes "i < retries" and "server i = Response status json_type b" and "500 \<le> status"
  shows "wpFetch_loop server request retries i =
           (Fetch request # Sleep (2 ^ i * 1000) # fst (wpFetch_loop server request retries (Suc i)),
            snd (wpFetch_loop server request retries (Suc i)))"
  using assms
  by (subst wpFetch_loop.simps)
     (simp add: try_block_def response_ok_def split: prod.split)

lemma wpFetch_loop_network_failure:
  assumes "i < retries" and "server i = NetworkFailure"
  shows "wpFetch_loop server request retries i =
           (Fetch request # fst (wpFetch_loop server request retries (Suc i)),
            snd (wpFetch_loop server request retries (Suc i)))"
  using assms
  by (subst wpFetch_loop.simps)
     (simp add: try_block_def catch_block_def split: prod.split)

lemma wpFetch_loop_aborted:
  assumes "i < retries" and "server i = Aborted"
  shows "wpFetch_loop server request retries i = ([Fetch request], Inl RequestTimeout)"
  using assms
  by (subst wpFetch_loop.simps) (simp add: try_block_def catch_block_def)

lemma wpFetch_loop_last_attempt:
  "server retries = Aborted \<Longrightarrow>
     wpFetch_loop server request retries retries = ([Fetch request], Inl AbortError)"
  "server retries = NetworkFailure \<Longrightarrow>
     wpFetch_loop server request retries retries = ([Fetch request], Inl FetchFailed)"
  "server retries = Response status json_type b \<Longrightarrow> \<not> response_ok status \<Longrightarrow>
     wpFetch_loop server request retries retries = ([Fetch request], Inl (HttpError status))"
  by (subst wpFetch_loop.simps, simp add: try_block_def catch_block_def)+

lemma wpFetch_loop_success:
  assumes "i \<le> retries" and "server i = Response status True (Some v)" and "response_ok status"
  shows "wpFetch_loop server request retries i = ([Fetch request], Inr v)"
  using assms
  by (subst wpFetch_loop.simps) (simp add: try_block_def)

lemma wpFetch_attempts:
  "attempts (fst (wpFetch config server endpoint http_method body retries)) \<le> retries + 1"
  using wpFetch_loop_attempts [of server _ retries 0]
  by (simp add: wpFetch_def attempts_def)

lemma wpFetch_abort_timer:
  assumes "Fetch r \<in> set (fst (wpFetch config server endpoint http_method body retries))"
  shows "abort_after_ms r = 10000"
proof (cases "wp_url config = [] \<or> wp_apiKey config = []")
  case True
  with assms show ?thesis by (simp add: wpFetch_def)
next
  case False
  let ?request = "\<lparr>request_url = wp_url config @ js ''/wp-json/enterprise-crm/v1'' @ endpoint,
      request_method = http_method, request_apiKey = wp_apiKey config,
      request_body = (if js_truthy body then Some body else None),
      abort_after_ms = 10000\<rparr>"
  from assms False have "Fetch r \<in> set (fst (wpFetch_loop server ?request retries 0))"
    by (simp add: wpFetch_def)
  with wpFetch_loop_events [of server ?request retries 0] have "r = ?request" by auto
  then show ?thesis by simp
qed

text \<open>
  C7, as amended. \<open>wpFetch\<close> makes at most \<open>retries + 1\<close> attempts, 4 with the default of 3
  retries, each with an abort timer of 10 seconds. While retries remain (\<open>i < retries\<close>), an
  attempt \<open>i\<close> that is answered with a status of 500 or more waits \<open>2\<^sup>i\<close> seconds and then
  makes attempt \<open>i + 1\<close>; an attempt whose \<open>fetch\<close> rejects for another reason than the abort
  is followed at once by attempt \<open>i + 1\<close>; an attempt that the timer aborts throws
  \<open>Request timeout\<close> and no attempt follows. On the last attempt (\<open>i = retries\<close>) an error
  response of any status, a rejection and an abort are thrown to the caller. An attempt
  answered with a JSON body and a 2xx status returns that body. (What a status below 500
  does while retries remain is not part of the statement.)
\<close>

theorem wpFetch_retry_policy:
  "attempts (fst (wpFetch config server endpoint http_method body retries)) \<le> retries + 1
   \<and> attempts (fst (wpFetch_default config server endpoint)) \<le> 4
   \<and> (\<forall>r. Fetch r \<in> set (fst (wpFetch config server endpoint http_method body retries))
          \<longrightarrow> abort_after_ms r = 10000)
   \<and> (i < retries \<and> server i = Response status json_type b \<and> 500 \<le> status \<longrightarrow>
        wpFetch_loop server request retries i =
          (Fetch request # Sleep (2 ^ i * 1000) # fst (wpFetch_loop server request retries (Suc i)),
           snd (wpFetch_loop server request retries (Suc i)))
        \<and> (\<exists>rest. fst (wpFetch_loop server request retries (Suc i)) = Fetch request # rest))
   \<and> (i < retries \<and> server i = NetworkFailure \<longrightarrow>
        wpFetch_loop server request retries i =
          (Fetch request # fst (wpFetch_loop server request retries (Suc i)),
           snd (wpFetch_loop server request retries (Suc i))))
   \<and> (i < retries \<and> server i = Aborted \<longrightarrow>
        wpFetch_loop server request retries i = ([Fetch request], Inl RequestTimeout))
   \<and> (server retries = Response status json_type b \<and> \<not> response_ok status \<longrightarrow>
        wpFetch_loop server request retries retries = ([Fetch request], Inl (HttpError status)))
   \<and> (server retries = NetworkFailure \<longrightarrow>
        wpFetch_loop server request retries retries = ([Fetch request], Inl FetchFailed))
   \<and> (server retries = Aborted \<longrightarrow>
        wpFetch_loop server request retries retries = ([Fetch request], Inl AbortError))
   \<and> (i \<le> retries \<and> server i = Response status True (Some v) \<and> response_ok status \<longrightarrow>
        wpFetch_loop server request retries i = ([Fetch request], Inr v))"
proof -
  have total: "attempts (fst (wpFetch config server endpoint http_method body retries)) \<le> retries + 1"
    by (rule wpFetch_attempts)
  have four: "attempts (fst (wpFetch_default config server endpoint)) \<le> 4"
    using wpFetch_attempts [of config server endpoint "js ''GET''" JNull 3]
    by (simp add: wpFetch_default_def)
  have timer: "\<forall>r. Fetch r \<in> set (fst (wpFetch config server endpoint http_method body retries))
                 \<longrightarrow> abort_after_ms r = 10000"
    using wpFetch_abort_timer by blast
  have backoff: "i < retries \<and> server i = Response status json_type b \<and> 500 \<le> status \<longrightarrow>
        wpFetch_loop server request retries i =
          (Fetch request # Sleep (2 ^ i * 1000) # fst (wpFetch_loop server request retries (Suc i)),
           snd (wpFetch_loop server request retries (Suc i)))
        \<and> (\<exists>rest. fst (wpFetch_loop server request retries (Suc i)) = Fetch request # rest)"
    using wpFetch_loop_5xx [of i retries server status json_type b request]
      wpFetch_loop_starts_with_fetch [of "Suc i" retries server request]
    by simp
  have network: "i < retries \<and> server i = NetworkFailure \<longrightarrow>
        wpFetch_loop server request retries i =
          (Fetch request # fst (wpFetch_loop server request retries (Suc i)),
           snd (wpFetch_loop server request retries (Suc i)))"
    using wpFetch_loop_network_failure [of i retries server request] by simp
  have timeout: "i < retries \<and> server i = Aborted \<longrightarrow>
        wpFetch_loop server request retries i = ([Fetch request], Inl RequestTimeout)"
    using wpFetch_loop_aborted [of i retries server request] by simp
  have last_http: "server retries = Response status json_type b \<and> \<not> response_ok status \<longrightarrow>
        wpFetch_loop server request retries retries = ([Fetch request], Inl (HttpError status))"
    using wpFetch_loop_last_attempt(3) [of server retries status json_type b request] by simp
  have last_network: "server retries = NetworkFailure \<longrightarrow>
        wpFetch_loop server request retries retries = ([Fetch request], Inl FetchFailed)"
    using wpFetch_loop_last_attempt(2) [of server retries request] by simp
  have last_abort: "server retries = Aborted \<longrightarrow>
        wpFetch_loop server request retries retries = ([Fetch request], Inl AbortError)"
    using wpFetch_loop_last_attempt(1) [of server retries request] by simp
  have success: "i \<le> retries \<and> server i = Response status True (Some v) \<and> response_ok status \<longrightarrow>
        wpFetch_loop server request retries i = ([Fetch request], Inr v)"
    using wpFetch_loop_success [of i retries server status v request] by simp
  show ?thesis
    by (intro conjI) (rule total four timer backoff network timeout last_http last_network
        last_abort success)+
qed

theorem wpFetch_retry_policy_witness:
  "(1::nat) < 3 \<and> server_500 1 = Response 500 False None \<and> (500::nat) \<le> 500
   \<and> wpFetch_loop server_500 campaigns_request 3 1 =
       ([Fetch campaigns_request, Sleep 2000, Fetch campaigns_request, Sleep 4000,
         Fetch campaigns_request], Inl (HttpError 500))
   \<and> server_down 1 = NetworkFailure
   \<and> wpFetch_loop server_down campaigns_request 3 1 =
       ([Fetch campaigns_request, Fetch campaigns_request, Fetch campaigns_request],
        Inl FetchFailed)
   \<and> server_slow 1 = Aborted
   \<and> wpFetch_loop server_slow campaigns_request 3 1 = ([Fetch campaigns_request], Inl RequestTimeout)
   \<and> server_500 3 = Response 500 False None \<and> \<not> response_ok 500
   \<and> wpFetch_loop server_500 campaigns_request 3 3 =
       ([Fetch campaigns_request], Inl (HttpError 500))
   \<and> server_down 3 = NetworkFailure
   \<and> wpFetch_loop server_down campaigns_request 3 3 = ([Fetch campaigns_request], Inl FetchFailed)
   \<and> server_slow 3 = Aborted
   \<and> wpFetch_loop server_slow campaigns_request 3 3 = ([Fetch campaigns_request], Inl AbortError)
   \<and> (2::nat) \<le> 3 \<and> server_503_then_ok 2 = Response 200 True (Some (JArr []))
   \<and> response_ok 200
   \<and> wpFetch_loop server_503_then_ok campaigns_request 3 2 =
       ([Fetch campaigns_request], Inr (JArr []))
   \<and> wpFetch_default config0 server_503_then_ok (js ''/campaigns'') =
       ([Fetch campaigns_request, Sleep 1000, Fetch campaigns_request, Sleep 2000,
         Fetch campaigns_request], Inr (JArr []))
   \<and> attempts (fst (wpFetch_default config0 server_500 (js ''/campaigns''))) = 4"
  using wpFetch_retry_policy [where server = server_500 and retries = 3 and i = 1
      and status = 500 and json_type = False and b = None and request = campaigns_request
      and config = config0 and endpoint = "js ''/campaigns''" and http_method = "js ''GET''"
      and body = JNull]
    wpFetch_retry_policy [where server = server_down and retries = 3 and i = 1
      and request = campaigns_request and config = config0]
    wpFetch_retry_policy [where server = server_slow and retries = 3 and i = 1
      and request = campaigns_request and config = config0]
    wpFetch_retry_policy [where server = server_503_then_ok and retries = 3 and i = 2
      and status = 200 and v = "JArr []" and request = campaigns_request
      and config = config0 and endpoint = "js ''/campaigns''"]
  by (simp add: wpFetch_default_def wpFetch_def config0_def campaigns_request_def
      server_500_def server_down_def server_slow_def server_503_then_ok_def
      wpFetch_loop.simps try_block_def catch_block_def response_ok_def attempts_def js_def)

text \<open>
  C7 as stated fails: the \<open>fetch\<close> of the first attempt rejects, so that there is no
  response and no status of 500 or more, and \<open>wpFetch\<close> makes a second attempt all the same,
  at once, and returns the body of its response.
\<close>

theorem wpFetch_retries_rejected_fetch_counterexample:
  "server_down_then_ok 0 = NetworkFailure
   \<and> wpFetch_default config0 server_down_then_ok (js ''/campaigns'') =
       ([Fetch campaigns_request, Fetch campaigns_request], Inr (JArr []))"
  by (simp add: wpFetch_default_def wpFetch_def config0_def campaigns_request_def
      server_down_then_ok_def wpFetch_loop.simps try_block_def catch_block_def response_ok_def
      js_def)

text \<open>
  A run in which the first attempt is answered with the status 404 while retries remain:
  the error thrown in the \<open>try\<close> block is caught by the \<open>catch\<close> block of the same
  iteration, and the loop goes on with the second attempt.
\<close>

lemma wpFetch_404_then_ok_run:
  "wpFetch_default config0 server_404_then_ok (js ''/campaigns'') =
     ([Fetch campaigns_request, Fetch campaigns_request], Inr (JArr []))"
  by (simp add: wpFetch_default_def wpFetch_def config0_def campaigns_request_def
      server_404_then_ok_def wpFetch_loop.simps try_block_def catch_block_def response_ok_def
      js_def)

subsection \<open>\<open>fetchData\<close>\<close>

lemma wp_part_defaults:
  "wp_part r0 r1 r2 =
     Inr \<lparr>data_campaigns = (case r0 of Inr v \<Rightarrow> v | Inl e \<Rightarrow> JArr []),
          data_funnels = (case r1 of Inr v \<Rightarrow> v | Inl e \<Rightarrow> JArr []),
          data_analytics = (case r2 of Inr v \<Rightarrow> v | Inl e \<Rightarrow> JObj [])\<rparr>"
  by (simp add: wp_part_def settle_def Let_def split: sum.split)

text \<open>
  C8. When the query for the contacts succeeds, \<open>fetchData\<close> ends without an error whatever
  the three WordPress requests do: the campaigns, the funnels and the analytics are the
  value of the request that was fulfilled, and \<open>[]\<close>, \<open>[]\<close> and \<open>{}\<close> for a request that was
  rejected.
\<close>

theorem fetchData_settles_wordpress:
  assumes "supabase_part supabase = Inr rows"
  shows "fetchData config server0 server1 server2 supabase (prev, ui) isRefresh =
           (prev\<lparr>contacts := rows,
                  campaigns := (case snd (wpFetch_default config server0 (js ''/campaigns'')) of
                                  Inr v \<Rightarrow> v | Inl e \<Rightarrow> JArr []),
                  funnels := (case snd (wpFetch_default config server1 (js ''/funnels'')) of
                                Inr v \<Rightarrow> v | Inl e \<Rightarrow> JArr []),
                  analytics := (case snd (wpFetch_default config server2
                                            (js ''/analytics?range='' @ selectedTimeRange ui)) of
                                  Inr v \<Rightarrow> v | Inl e \<Rightarrow> JObj []),
                  loading := False, error := None, retryCount := 0\<rparr>,
            ui\<lparr>refreshing := False\<rparr>)"
  using assms
  by (simp add: fetchData_def wp_part_defaults promise_all2_def Let_def)


theorem fetchData_settles_wordpress_witness:
  "supabase_part (Some (QueryReply (Some [alice]) False)) = Inr [alice]
   \<and> snd (wpFetch_default config0 server_500 (js ''/campaigns'')) = Inl (HttpError 500)
   \<and> snd (wpFetch_default config0 server_down (js ''/analytics?range=30d'')) = Inl FetchFailed
   \<and> fetchData config0 server_500 server_funnels server_down
         (Some (QueryReply (Some [alice]) False)) (dashboard0, ui0) False =
       (dashboard0\<lparr>contacts := [alice], campaigns := JArr [],
                    funnels := JArr [JStr (js ''welcome'')], analytics := JObj []\<rparr>,
        ui0)"
  using fetchData_settles_wordpress [of "Some (QueryReply (Some [alice]) False)" "[alice]"
      config0 server_500 server_funnels server_down dashboard0 ui0 False]
  by (simp add: supabase_part_def wpFetch_default_def wpFetch_def config0_def
      server_500_def server_down_def server_funnels_def ui0_def dashboard0_def
      wpFetch_loop.simps try_block_def catch_block_def response_ok_def js_def)

section \<open>Properties of the number model\<close>

lemma floor_numeral_divide:
  "\<lfloor>numeral a / numeral b :: rat\<rfloor> = numeral a div numeral b"
  using floor_divide_of_int_eq [of "numeral a" "numeral b", where ?'a = rat] by simp

lemmas double_eval =
  round_double_def round_positive_def scale_down.simps scale_up.simps round_half_even_def
  pow2_def Let_def floor_numeral_divide








lemma price_19_99_times_100:
  "number_times price_19_99 (Finite 100) = Finite (8791694975696895 / 4398046511104)"
  by (simp add: price_19_99_def double_eval)

lemma largest_odd_times_100:
  "number_times (Finite 9007199254740991) (Finite 100) = Finite 900719925474099072"
  by (simp add: double_eval)

section \<open>Properties of the checkout handler\<close>




text \<open>
  C10. When no row of the table has the requested id, the handler throws a \<open>TypeError\<close>
  right after the query: it creates no session and sends no response.
\<close>

theorem handler_missing_bot_throws:
  assumes "\<forall>r \<in> set bots. bot_ident r \<noteq> bot_id body"
  shows "handler stripe bots body = ([SelectBot (bot_id body)], Inl TypeError)
         \<and> created_sessions (fst (handler stripe bots body)) = []
         \<and> \<not> list_ex is_ResJson (fst (handler stripe bots body))"
proof -
  have "filter (\<lambda>r. bot_ident r = bot_id body) bots = []"
    using assms by (simp add: filter_empty_conv)
  then show ?thesis
    by (simp add: handler_def select_bot_def single_def)
qed

theorem handler_missing_bot_throws_witness:
  "map bot_ident bots0 = [7, 8]
   \<and> handler stripe0 bots0 \<lparr>bot_id = 9, user_id = 1\<rparr> = ([SelectBot 9], Inl TypeError)
   \<and> created_sessions (fst (handler stripe0 bots0 \<lparr>bot_id = 9, user_id = 1\<rparr>)) = []
   \<and> \<not> list_ex is_ResJson (fst (handler stripe0 bots0 \<lparr>bot_id = 9, user_id = 1\<rparr>))"
  using handler_missing_bot_throws [of bots0 "\<lparr>bot_id = 9, user_id = 1::nat\<rparr>" stripe0]
  by (simp add: bots0_def)


section \<open>Properties of the lead endpoint\<close>

lemma missing_or_empty_imp_empty_at: "missing_or_empty params k \<Longrightarrow> empty_at params k"
  by (auto simp: missing_or_empty_def empty_at_def)

text \<open>
  C5. When the \<open>email\<close> field or the \<open>first_name\<close> field of the body is missing or empty,
  \<open>create_contact\<close> returns the error of status 400 and does nothing else: it does not
  search, update or insert a contact.
\<close>

theorem create_contact_rejects_missing_fields:
  assumes "missing_or_empty params ''email'' \<or> missing_or_empty params ''first_name''"
  shows "create_contact wp params =
           ([], WP_Error ''missing_required_fields'' ''Email and first_name are required'' 400)
         \<and> \<not> list_ex writes_contact (fst (create_contact wp params))"
proof -
  from assms have "empty_at params ''email'' \<or> empty_at params ''first_name''"
    using missing_or_empty_imp_empty_at by blast
  then show ?thesis
    by (simp add: create_contact_def)
qed

theorem create_contact_rejects_missing_fields_witness:
  "missing_or_empty params_no_email ''email''
   \<and> create_contact wordpress0 params_no_email =
       ([], WP_Error ''missing_required_fields'' ''Email and first_name are required'' 400)
   \<and> missing_or_empty params_empty_name ''first_name''
   \<and> create_contact wordpress0 params_empty_name =
       ([], WP_Error ''missing_required_fields'' ''Email and first_name are required'' 400)"
  using create_contact_rejects_missing_fields [of params_no_email wordpress0]
    create_contact_rejects_missing_fields [of params_empty_name wordpress0]
  by (simp add: missing_or_empty_def param_at_def params_no_email_def params_empty_name_def)

text \<open>
  With both fields filled in, the callback does reach the update or the insertion.
\<close>

lemma upsert_contact_writes: "list_ex writes_contact (fst (upsert_contact wp params))"
  by (simp add: upsert_contact_def Let_def split: list.split)

lemma create_contact_reaches_upsert:
  assumes "\<not> empty_at params ''email''" and "\<not> empty_at params ''first_name''"
  shows "list_ex writes_contact (fst (create_contact wp params))"
proof (cases "upsert_contact wp params")
  case (Pair effects r)
  with upsert_contact_writes [of wp params] have w: "list_ex writes_contact effects" by simp
  show ?thesis
    using assms Pair w
    by (cases r; cases "trigger_pipedream_webhook wp ''lead_created'' (case r of PostID n \<Rightarrow> n | _ \<Rightarrow> 0) params")
       (auto simp: create_contact_def)
qed

lemma create_contact_complete_example:
  "create_contact wordpress0 params_complete =
     ([GetPosts (PString ''ada@example.com''),
       WpInsertPost
         \<lparr>post_type = ''crm_contacts'', post_title = PString ''ada@example.com'',
          post_status = ''publish'',
          post_meta =
            \<lparr>meta_email = ''ada@example.com'', meta_first_name = ''Ada'', meta_last_name = [],
             meta_phone = [], meta_company = [], meta_source = ''unknown'', meta_tags = PArray [],
             meta_custom_fields = PArray [], meta_created_at = ''2024-01-01 00:00:00'',
             meta_status = ''active''\<rparr>\<rparr>,
       WpRemotePost
         \<lparr>hook_event = ''lead_created'', hook_contact_id = 42, hook_data = params_complete,
          hook_timestamp = ''2024-01-01 00:00:00'', hook_site_url = ''https://site.example''\<rparr>,
       DoAction 42 params_complete],
      WP_REST_Response 42 True 201)"
  by (simp add: create_contact_def upsert_contact_def trigger_pipedream_webhook_def wordpress0_def
      params_complete_def empty_at_def param_at_def value_at_def coalesce_at_def Let_def)

end
